theory Spec2Isabelle
  imports Main "HOL-Library.Multiset"
begin

section \<open>Assignment management: the data model\<close>

text \<open>
  The component \<open>AssignmentManagement\<close> keeps five pieces of React state, talks to three
  collections of a remote document store and reports through a notification surface.
  A date value held in a document or in the form is represented by the epoch
  milliseconds that \<open>new Date(v).getTime()\<close> yields for it; a falsy value (an absent
  property, the empty string of an untouched date input) is \<open>None\<close>. Documents carry no
  \<open>id\<close> property of their own, so the spread \<open>{id: key, ...val()}\<close> leaves the key as id.
\<close>

type_synonym key = string
type_synonym millis = int

record user =
  user_id :: "string option"
  user_role :: string

record course_doc =
  cd_title :: string
  cd_instructor_id :: string

record assignment_doc =
  ad_title :: string
  ad_description :: string
  ad_course_id :: string
  ad_due_date :: "millis option"
  ad_points :: int
  ad_created_at :: "millis option"
  ad_created_by :: string

record submission_doc =
  sd_assignment_id :: string

record course =
  c_id :: key
  c_title :: string
  c_instructor_id :: string

text \<open>
  An element of \<open>assignmentsData\<close>: the document, its key as \<open>id\<close>, the parent
  course's title, and \<open>submissions_count\<close>, a property that does not exist until the
  counting loop assigns it.
\<close>

record enriched =
  a_id :: key
  a_title :: string
  a_description :: string
  a_course_id :: string
  a_due_date :: "millis option"
  a_points :: int
  a_created_at :: "millis option"
  a_created_by :: string
  a_course_title :: string
  a_submissions_count :: "nat option"

text \<open>The creation form, \<open>newAssignment\<close>.\<close>

record form =
  f_title :: string
  f_description :: string
  f_course_id :: string
  f_due_date :: "millis option"
  f_points :: int

record state =
  assignments :: "enriched list"
  courses :: "course list"
  isLoading :: bool
  isAddDialogOpen :: bool
  newAssignment :: form

datatype toast = ToastError string | ToastSuccess string

datatype exn = TransportError | TypeError | UndefinedValue

text \<open>
  Everything outside the component: the three collections, each listed in key order as a
  snapshot iterates it; the outcome of the round trips still to come (\<open>True\<close>: that round
  trip is rejected; past the end of the list every round trip succeeds); the toasts shown;
  the lines written by \<open>console.error\<close>; the number of page reloads requested.
\<close>

record world =
  db_courses :: "(key \<times> course_doc) list"
  db_assignments :: "(key \<times> assignment_doc) list"
  db_submissions :: "(key \<times> submission_doc) list"
  outages :: "bool list"
  toasts :: "toast list"
  console :: "string list"
  reloads :: nat

definition empty_form :: form where
  "empty_form = \<lparr>f_title = [], f_description = [], f_course_id = [],
                  f_due_date = None, f_points = 100\<rparr>"

definition initial_state :: state where
  "initial_state = \<lparr>assignments = [], courses = [], isLoading = True,
                     isAddDialogOpen = False, newAssignment = empty_form\<rparr>"

section \<open>The remote store\<close>

text \<open>
  One round trip: it consumes the next scheduled outcome and either rejects or applies
  the operation to the store.
\<close>

definition round_trip :: "world \<Rightarrow> bool \<times> world" where
  "round_trip w = (case outages w of
      [] \<Rightarrow> (True, w)
    | b # bs \<Rightarrow> (\<not> b, w\<lparr>outages := bs\<rparr>))"

definition get_snapshot :: "(world \<Rightarrow> 'a) \<Rightarrow> world \<Rightarrow> (exn + 'a) \<times> world" where
  "get_snapshot q w = (case round_trip w of
      (True, w') \<Rightarrow> (Inr (q w'), w')
    | (False, w') \<Rightarrow> (Inl TransportError, w'))"

text \<open>The three queries of \<open>fetchData\<close>.\<close>

definition coursesRef :: "string \<Rightarrow> string \<Rightarrow> world \<Rightarrow> (key \<times> course_doc) list" where
  "coursesRef uid role w =
     (if role = ''teacher''
      then filter (\<lambda>(k, d). cd_instructor_id d = uid) (db_courses w)
      else db_courses w)"

definition assignmentsRef :: "key \<Rightarrow> world \<Rightarrow> (key \<times> assignment_doc) list" where
  "assignmentsRef cid w = filter (\<lambda>(k, d). ad_course_id d = cid) (db_assignments w)"

definition submissionsRef :: "key \<Rightarrow> world \<Rightarrow> (key \<times> submission_doc) list" where
  "submissionsRef aid w = filter (\<lambda>(k, d). sd_assignment_id d = aid) (db_submissions w)"

section \<open>The aggregation pipeline \<open>fetchData\<close>\<close>

definition course_of :: "key \<times> course_doc \<Rightarrow> course" where
  "course_of kd = \<lparr>c_id = fst kd, c_title = cd_title (snd kd),
                   c_instructor_id = cd_instructor_id (snd kd)\<rparr>"

definition enrich :: "course \<Rightarrow> key \<times> assignment_doc \<Rightarrow> enriched" where
  "enrich c kd =
     \<lparr>a_id = fst kd, a_title = ad_title (snd kd), a_description = ad_description (snd kd),
      a_course_id = ad_course_id (snd kd), a_due_date = ad_due_date (snd kd),
      a_points = ad_points (snd kd), a_created_at = ad_created_at (snd kd),
      a_created_by = ad_created_by (snd kd), a_course_title = c_title c,
      a_submissions_count = None\<rparr>"

text \<open>The loop over \<open>coursesData\<close>, pushing onto \<open>assignmentsData\<close>.\<close>

fun collect_assignments ::
  "course list \<Rightarrow> enriched list \<Rightarrow> world \<Rightarrow> (exn + enriched list) \<times> world" where
  "collect_assignments [] acc w = (Inr acc, w)"
| "collect_assignments (c # cs) acc w =
     (case get_snapshot (assignmentsRef (c_id c)) w of
        (Inl e, w') \<Rightarrow> (Inl e, w')
      | (Inr snap, w') \<Rightarrow> collect_assignments cs (acc @ map (enrich c) snap) w')"

text \<open>The loop over the indices of \<open>assignmentsData\<close>, one count per assignment.\<close>

fun count_submissions :: "enriched list \<Rightarrow> world \<Rightarrow> (exn + enriched list) \<times> world" where
  "count_submissions [] w = (Inr [], w)"
| "count_submissions (a # as) w =
     (case get_snapshot (submissionsRef (a_id a)) w of
        (Inl e, w') \<Rightarrow> (Inl e, w')
      | (Inr snap, w') \<Rightarrow>
          (case count_submissions as w' of
             (Inl e, w'') \<Rightarrow> (Inl e, w'')
           | (Inr rest, w'') \<Rightarrow>
               (Inr (a\<lparr>a_submissions_count := Some (length snap)\<rparr> # rest), w'')))"

text \<open>
  \<open>Array.prototype.sort\<close> with a comparator: a stable sort that puts \<open>x\<close> before \<open>y\<close>
  when the comparator is not positive.
\<close>

fun insert_by :: "('a \<Rightarrow> 'a \<Rightarrow> int) \<Rightarrow> 'a \<Rightarrow> 'a list \<Rightarrow> 'a list" where
  "insert_by cmp x [] = [x]"
| "insert_by cmp x (y # ys) =
     (if cmp x y \<le> 0 then x # y # ys else y # insert_by cmp x ys)"

definition array_sort :: "('a \<Rightarrow> 'a \<Rightarrow> int) \<Rightarrow> 'a list \<Rightarrow> 'a list" where
  "array_sort cmp xs = foldr (insert_by cmp) xs []"

text \<open>\<open>new Date(a.created_at || 0).getTime()\<close>\<close>

definition created_time :: "enriched \<Rightarrow> millis" where
  "created_time a = (case a_created_at a of None \<Rightarrow> 0 | Some t \<Rightarrow> t)"

definition by_created_desc :: "enriched \<Rightarrow> enriched \<Rightarrow> int" where
  "by_created_desc a b = created_time b - created_time a"

text \<open>The \<open>catch\<close> block of \<open>fetchData\<close>.\<close>

definition load_failed :: "exn \<Rightarrow> world \<Rightarrow> world" where
  "load_failed e w =
     w\<lparr>console := console w @ [''Error fetching data:''],
       toasts := toasts w @ [ToastError ''Failed to load assignments.'']\<rparr>"

text \<open>
  The guard \<open>!user?.id\<close>: the acting user's id and role when the user exists and the id
  is truthy (present and not the empty string).
\<close>

definition acting :: "user option \<Rightarrow> (string \<times> string) option" where
  "acting u = (case u of
      None \<Rightarrow> None
    | Some usr \<Rightarrow> (case user_id usr of
          None \<Rightarrow> None
        | Some uid \<Rightarrow> if uid = [] then None else Some (uid, user_role usr)))"

definition fetchData :: "user option \<Rightarrow> state \<times> world \<Rightarrow> state \<times> world" where
  "fetchData u sw =
     (case sw of (s, w) \<Rightarrow>
      (case acting u of
         None \<Rightarrow> (s\<lparr>isLoading := False\<rparr>, w)
       | Some (uid, role) \<Rightarrow>
          (case get_snapshot (coursesRef uid role) w of
             (Inl e, w1) \<Rightarrow> (s\<lparr>isLoading := False\<rparr>, load_failed e w1)
           | (Inr snap, w1) \<Rightarrow>
               let s1 = s\<lparr>courses := map course_of snap\<rparr> in
               (case collect_assignments (map course_of snap) [] w1 of
                  (Inl e, w2) \<Rightarrow> (s1\<lparr>isLoading := False\<rparr>, load_failed e w2)
                | (Inr assignmentsData, w2) \<Rightarrow>
                    (case count_submissions assignmentsData w2 of
                       (Inl e, w3) \<Rightarrow> (s1\<lparr>isLoading := False\<rparr>, load_failed e w3)
                     | (Inr counted, w3) \<Rightarrow>
                         (s1\<lparr>assignments := array_sort by_created_desc counted,
                             isLoading := False\<rparr>, w3))))))"

section \<open>The creation form and \<open>handleCreateAssignment\<close>\<close>

text \<open>
  \<open>parseInt\<close> without a radix: leading white space is skipped, a sign is read, a
  \<open>0x\<close> prefix selects radix 16, and the longest prefix of digits is the value; with no
  digit the result is \<open>NaN\<close>, here \<open>None\<close>. The value is an exact integer (a JavaScript
  number agrees with it up to \<open>2^53\<close> and rounds beyond), and white space is the ASCII white
  space (JavaScript also skips the Unicode space characters).
\<close>

definition is_space :: "char \<Rightarrow> bool" where
  "is_space c = (of_char c \<in> {9, 10, 11, 12, 13, 32 :: nat})"

definition digit_of :: "nat \<Rightarrow> char \<Rightarrow> nat option" where
  "digit_of radix c =
     (let n = (of_char c :: nat);
          v = (if 48 \<le> n \<and> n \<le> 57 then Some (n - 48)
               else if 97 \<le> n \<and> n \<le> 122 then Some (n - 87)
               else if 65 \<le> n \<and> n \<le> 90 then Some (n - 55)
               else None)
      in case v of None \<Rightarrow> None | Some d \<Rightarrow> if d < radix then Some d else None)"

fun digits_prefix :: "nat \<Rightarrow> string \<Rightarrow> nat list" where
  "digits_prefix radix [] = []"
| "digits_prefix radix (c # cs) =
     (case digit_of radix c of None \<Rightarrow> [] | Some d \<Rightarrow> d # digits_prefix radix cs)"

definition parseInt :: "string \<Rightarrow> int option" where
  "parseInt str =
     (let t = dropWhile is_space str;
          neg = (case t of [] \<Rightarrow> False | c # _ \<Rightarrow> c = CHR ''-'');
          t1 = (case t of [] \<Rightarrow> [] | c # r \<Rightarrow> if c = CHR ''-'' \<or> c = CHR ''+'' then r else t);
          hex = (case t1 of a # b # _ \<Rightarrow> a = CHR ''0'' \<and> (b = CHR ''x'' \<or> b = CHR ''X'')
                          | _ \<Rightarrow> False);
          radix = (if hex then 16 else 10);
          ds = digits_prefix radix (if hex then drop 2 t1 else t1);
          n = int (foldl (\<lambda>acc d. acc * radix + d) 0 ds)
      in if ds = [] then None else Some (if neg then - n else n))"

text \<open>\<open>parseInt(e.target.value) || 0\<close>: \<open>NaN\<close> and zero are falsy.\<close>

definition handlePointsChange :: "string \<Rightarrow> state \<Rightarrow> state" where
  "handlePointsChange v s =
     (let value = (case parseInt v of None \<Rightarrow> 0 | Some n \<Rightarrow> if n = 0 then 0 else n)
      in s\<lparr>newAssignment := (newAssignment s)\<lparr>f_points := value\<rparr>\<rparr>)"

definition push_assignment :: "key \<Rightarrow> assignment_doc \<Rightarrow> world \<Rightarrow> (exn + unit) \<times> world" where
  "push_assignment k doc w = (case round_trip w of
      (True, w') \<Rightarrow> (Inr (), w'\<lparr>db_assignments := db_assignments w' @ [(k, doc)]\<rparr>)
    | (False, w') \<Rightarrow> (Inl TransportError, w'))"

text \<open>The \<open>catch\<close> block of \<open>handleCreateAssignment\<close>.\<close>

definition create_failed :: "exn \<Rightarrow> world \<Rightarrow> world" where
  "create_failed e w =
     w\<lparr>console := console w @ [''Error creating assignment:''],
       toasts := toasts w @ [ToastError ''Failed to create assignment'']\<rparr>"

definition assignmentData :: "form \<Rightarrow> millis \<Rightarrow> string \<Rightarrow> assignment_doc" where
  "assignmentData f now uid =
     \<lparr>ad_title = f_title f, ad_description = f_description f, ad_course_id = f_course_id f,
      ad_due_date = f_due_date f, ad_points = f_points f,
      ad_created_at = Some now, ad_created_by = uid\<rparr>"

text \<open>
  \<open>now\<close> is the clock read by \<open>new Date()\<close> and \<open>k\<close> the key that \<open>push\<close> generates.
  Reading \<open>user.id\<close> of a missing user throws, and \<open>push\<close> refuses a document with an
  undefined property before any request is sent; both end in the \<open>catch\<close> block.
\<close>

definition handleCreateAssignment ::
  "user option \<Rightarrow> millis \<Rightarrow> key \<Rightarrow> state \<times> world \<Rightarrow> state \<times> world" where
  "handleCreateAssignment u now k sw =
     (case sw of (s, w) \<Rightarrow>
      if f_title (newAssignment s) = [] \<or> f_course_id (newAssignment s) = []
      then (s, w\<lparr>toasts := toasts w @ [ToastError ''Title and course are required'']\<rparr>)
      else (case u of
          None \<Rightarrow> (s, create_failed TypeError w)
        | Some usr \<Rightarrow> (case user_id usr of
              None \<Rightarrow> (s, create_failed UndefinedValue w)
            | Some uid \<Rightarrow>
               (case push_assignment k (assignmentData (newAssignment s) now uid) w of
                  (Inl e, w') \<Rightarrow> (s, create_failed e w')
                | (Inr _, w') \<Rightarrow>
                    (s\<lparr>isAddDialogOpen := False, newAssignment := empty_form\<rparr>,
                     w'\<lparr>toasts := toasts w' @ [ToastSuccess ''Assignment created successfully''],
                        reloads := Suc (reloads w')\<rparr>)))))"

section \<open>\<open>handleDeleteAssignment\<close>\<close>

definition remove_assignment :: "key \<Rightarrow> world \<Rightarrow> (exn + unit) \<times> world" where
  "remove_assignment aid w = (case round_trip w of
      (True, w') \<Rightarrow>
        (Inr (), w'\<lparr>db_assignments := filter (\<lambda>(k, d). k \<noteq> aid) (db_assignments w')\<rparr>)
    | (False, w') \<Rightarrow> (Inl TransportError, w'))"

definition delete_failed :: "exn \<Rightarrow> world \<Rightarrow> world" where
  "delete_failed e w =
     w\<lparr>console := console w @ [''Error deleting assignment:''],
       toasts := toasts w @ [ToastError ''Failed to delete assignment'']\<rparr>"

text \<open>\<open>confirmed\<close> is the answer given to the \<open>confirm\<close> dialog.\<close>

definition handleDeleteAssignment ::
  "bool \<Rightarrow> key \<Rightarrow> state \<times> world \<Rightarrow> state \<times> world" where
  "handleDeleteAssignment confirmed assignmentId sw =
     (case sw of (s, w) \<Rightarrow>
      if confirmed
      then (case remove_assignment assignmentId w of
          (Inl e, w') \<Rightarrow> (s, delete_failed e w')
        | (Inr _, w') \<Rightarrow>
            (s\<lparr>assignments := filter (\<lambda>a. a_id a \<noteq> assignmentId) (assignments s)\<rparr>,
             w'\<lparr>toasts := toasts w' @ [ToastSuccess ''Assignment deleted successfully'']\<rparr>))
      else (s, w))"

section \<open>The derived view of active assignments\<close>

text \<open>
  \<open>a.due_date && new Date(a.due_date) < new Date()\<close>, with \<open>now\<close> the clock; the card
  lists the filtered sequence once \<open>isLoading\<close> is false.
\<close>

definition isDueDatePassed :: "millis \<Rightarrow> enriched \<Rightarrow> bool" where
  "isDueDatePassed now a = (case a_due_date a of None \<Rightarrow> False | Some d \<Rightarrow> d < now)"

definition activeAssignments :: "millis \<Rightarrow> enriched list \<Rightarrow> enriched list" where
  "activeAssignments now as = filter (\<lambda>a. \<not> isDueDatePassed now a) as"

section \<open>Notions used to state the properties\<close>

text \<open>An element of \<open>assignmentsData\<close> once the counting loop has assigned its count.\<close>

definition with_count :: "world \<Rightarrow> enriched \<Rightarrow> enriched" where
  "with_count w a = a\<lparr>a_submissions_count := Some (length (submissionsRef (a_id a) w))\<rparr>"

text \<open>
  What the two loops gather for a course scope: per course, in scope order, the
  assignments of that course, enriched and counted.
\<close>

definition gathered :: "course list \<Rightarrow> world \<Rightarrow> enriched list" where
  "gathered cs w =
     map (with_count w) (concat (map (\<lambda>c. map (enrich c) (assignmentsRef (c_id c) w)) cs))"

text \<open>
  The number of round trips a complete run makes: one for the courses, one per course of
  the scope and one per gathered assignment; and whether one of the next \<open>n\<close> round trips
  is rejected.
\<close>

definition round_trips :: "string \<Rightarrow> string \<Rightarrow> world \<Rightarrow> nat" where
  "round_trips uid role w =
     1 + length (coursesRef uid role w)
       + length (gathered (map course_of (coursesRef uid role w)) w)"

definition rejected_within :: "nat \<Rightarrow> world \<Rightarrow> bool" where
  "rejected_within n w = (True \<in> set (take n (outages w)))"

section \<open>A worked scenario\<close>

text \<open>
  Two courses, \<open>C1\<close> taught by \<open>U1\<close> and \<open>C2\<close> taught by \<open>U2\<close>; three assignments,
  \<open>A1\<close> and \<open>A3\<close> of \<open>C1\<close> and \<open>A2\<close> of \<open>C2\<close>; no round trip fails.
\<close>

definition teacher_U1 :: user where
  "teacher_U1 = \<lparr>user_id = Some ''U1'', user_role = ''teacher''\<rparr>"

definition admin_U0 :: user where
  "admin_U0 = \<lparr>user_id = Some ''U0'', user_role = ''admin''\<rparr>"

definition doc_for :: "string \<Rightarrow> string \<Rightarrow> millis option \<Rightarrow> assignment_doc" where
  "doc_for t cid created =
     \<lparr>ad_title = t, ad_description = [], ad_course_id = cid, ad_due_date = None,
      ad_points = 100, ad_created_at = created, ad_created_by = ''U1''\<rparr>"

definition scenario :: world where
  "scenario =
     \<lparr>db_courses = [(''C1'', \<lparr>cd_title = ''Algebra'', cd_instructor_id = ''U1''\<rparr>),
                    (''C2'', \<lparr>cd_title = ''Botany'', cd_instructor_id = ''U2''\<rparr>)],
      db_assignments = [(''A1'', doc_for ''one'' ''C1'' (Some 1000)),
                        (''A2'', doc_for ''two'' ''C2'' (Some 2000)),
                        (''A3'', doc_for ''three'' ''C1'' (Some 3000))],
      db_submissions = [(''S1'', \<lparr>sd_assignment_id = ''A1''\<rparr>),
                        (''S2'', \<lparr>sd_assignment_id = ''A2''\<rparr>),
                        (''S3'', \<lparr>sd_assignment_id = ''A1''\<rparr>)],
      outages = [], toasts = [], console = [], reloads = 0\<rparr>"

text \<open>
  One course with three assignments: one created after the epoch, one created before it
  and one without \<open>created_at\<close>.
\<close>

definition before_epoch :: world where
  "before_epoch =
     \<lparr>db_courses = [(''C1'', \<lparr>cd_title = ''Algebra'', cd_instructor_id = ''U1''\<rparr>)],
      db_assignments = [(''A1'', doc_for ''late'' ''C1'' (Some 1000)),
                        (''A2'', doc_for ''early'' ''C1'' (Some (- 1000))),
                        (''A3'', doc_for ''undated'' ''C1'' None)],
      db_submissions = [],
      outages = [], toasts = [], console = [], reloads = 0\<rparr>"

text \<open>The same with both dated assignments created after the epoch, the undated one first.\<close>

definition undated_first :: world where
  "undated_first =
     \<lparr>db_courses = [(''C1'', \<lparr>cd_title = ''Algebra'', cd_instructor_id = ''U1''\<rparr>)],
      db_assignments = [(''A1'', doc_for ''undated'' ''C1'' None),
                        (''A2'', doc_for ''early'' ''C1'' (Some 1000)),
                        (''A3'', doc_for ''late'' ''C1'' (Some 2000))],
      db_submissions = [],
      outages = [], toasts = [], console = [], reloads = 0\<rparr>"

text \<open>An assignment as displayed, with a given due date.\<close>

definition due_in :: "millis option \<Rightarrow> enriched" where
  "due_in d = \<lparr>a_id = ''A1'', a_title = ''one'', a_description = [], a_course_id = ''C1'',
               a_due_date = d, a_points = 100, a_created_at = Some 1000, a_created_by = ''U1'',
               a_course_title = ''Algebra'', a_submissions_count = Some 0\<rparr>"

text \<open>The component with the dialog open and title and course filled in.\<close>

definition filled_form :: state where
  "filled_form = initial_state\<lparr>isLoading := False, isAddDialogOpen := True,
      newAssignment := empty_form\<lparr>f_title := ''Essay'', f_course_id := ''C1''\<rparr>\<rparr>"

text \<open>The scenario with the second round trip failing.\<close>

definition second_trip_fails :: world where
  "second_trip_fails = scenario\<lparr>outages := [False, True]\<rparr>"

text \<open>The scenario with the first round trip failing.\<close>

definition first_trip_fails :: world where
  "first_trip_fails = scenario\<lparr>outages := [True]\<rparr>"

text \<open>
  The scenario with the fifth round trip failing: the courses and both courses'
  assignments are read, and the count of the second assignment is rejected.
\<close>

definition submissions_read_fails :: world where
  "submissions_read_fails = scenario\<lparr>outages := [False, False, False, False, True]\<rparr>"

section \<open>The store is only read by the pipeline\<close>

lemma round_trip_frame: "\<exists>os. snd (round_trip w) = w\<lparr>outages := os\<rparr>"
proof (cases "outages w")
  case Nil
  then have "w = w\<lparr>outages := []\<rparr>" by simp
  then show ?thesis using Nil by (auto simp: round_trip_def intro: exI[of _ "[]"])
next
  case (Cons b bs)
  then have "snd (round_trip w) = w\<lparr>outages := bs\<rparr>" by (simp add: round_trip_def)
  then show ?thesis by blast
qed

lemma get_snapshot_frame: "get_snapshot q w = (r, w') \<Longrightarrow> \<exists>os. w' = w\<lparr>outages := os\<rparr>"
  using round_trip_frame[of w] by (auto simp: get_snapshot_def split: prod.splits bool.splits)

lemma get_snapshot_Inr: "get_snapshot q w = (Inr x, w') \<Longrightarrow> x = q w'"
  by (auto simp: get_snapshot_def split: prod.splits bool.splits)

lemma assignmentsRef_outages [simp]: "assignmentsRef cid (w\<lparr>outages := os\<rparr>) = assignmentsRef cid w"
  by (simp add: assignmentsRef_def)

lemma submissionsRef_outages [simp]: "submissionsRef aid (w\<lparr>outages := os\<rparr>) = submissionsRef aid w"
  by (simp add: submissionsRef_def)

lemma coursesRef_outages [simp]: "coursesRef uid role (w\<lparr>outages := os\<rparr>) = coursesRef uid role w"
  by (simp add: coursesRef_def)

lemma collect_assignments_frame:
  "collect_assignments cs acc w = (r, w') \<Longrightarrow> \<exists>os. w' = w\<lparr>outages := os\<rparr>"
proof (induction cs arbitrary: acc w)
  case Nil
  then have "w' = w" by simp
  then have "w' = w\<lparr>outages := outages w\<rparr>" by simp
  then show ?case by blast
next
  case (Cons c cs)
  obtain x w1 where g: "get_snapshot (assignmentsRef (c_id c)) w = (x, w1)" by force
  then obtain os1 where w1: "w1 = w\<lparr>outages := os1\<rparr>" using get_snapshot_frame by blast
  show ?case
  proof (cases x)
    case (Inl e)
    with Cons.prems g have "w' = w1" by simp
    with w1 show ?thesis by blast
  next
    case (Inr snap)
    with Cons.prems g have "collect_assignments cs (acc @ map (enrich c) snap) w1 = (r, w')" by simp
    from Cons.IH[OF this] obtain os where "w' = w1\<lparr>outages := os\<rparr>" by blast
    with w1 have "w' = w\<lparr>outages := os\<rparr>" by simp
    then show ?thesis by blast
  qed
qed

lemma collect_assignments_Inr:
  "collect_assignments cs acc w = (Inr r, w') \<Longrightarrow>
     r = acc @ concat (map (\<lambda>c. map (enrich c) (assignmentsRef (c_id c) w)) cs)"
proof (induction cs arbitrary: acc w)
  case Nil
  then show ?case by simp
next
  case (Cons c cs)
  obtain x w1 where g: "get_snapshot (assignmentsRef (c_id c)) w = (x, w1)" by force
  then obtain os1 where w1: "w1 = w\<lparr>outages := os1\<rparr>" using get_snapshot_frame by blast
  show ?case
  proof (cases x)
    case (Inl e)
    with Cons.prems g show ?thesis by simp
  next
    case (Inr snap)
    with g w1 have snap: "snap = assignmentsRef (c_id c) w" using get_snapshot_Inr by fastforce
    from Inr Cons.prems g have "collect_assignments cs (acc @ map (enrich c) snap) w1 = (Inr r, w')" by simp
    from Cons.IH[OF this] show ?thesis by (simp add: snap w1)
  qed
qed

lemma count_submissions_frame:
  "count_submissions as w = (r, w') \<Longrightarrow> \<exists>os. w' = w\<lparr>outages := os\<rparr>"
proof (induction as arbitrary: w r w')
  case Nil
  then have "w' = w\<lparr>outages := outages w\<rparr>" by simp
  then show ?case by blast
next
  case (Cons a as)
  obtain x w1 where g: "get_snapshot (submissionsRef (a_id a)) w = (x, w1)" by force
  then obtain os1 where w1: "w1 = w\<lparr>outages := os1\<rparr>" using get_snapshot_frame by blast
  show ?case
  proof (cases x)
    case (Inl e)
    with Cons.prems g have "w' = w1" by simp
    with w1 show ?thesis by blast
  next
    case (Inr snap)
    obtain y w2 where c: "count_submissions as w1 = (y, w2)" by force
    from Cons.IH[OF this] obtain os2 where w2: "w2 = w1\<lparr>outages := os2\<rparr>" by blast
    from Inr Cons.prems g c have "w' = w2" by (cases y) auto
    with w1 w2 have "w' = w\<lparr>outages := os2\<rparr>" by simp
    then show ?thesis by blast
  qed
qed

lemma count_submissions_Inr:
  "count_submissions as w = (Inr r, w') \<Longrightarrow> r = map (with_count w) as"
proof (induction as arbitrary: w r w')
  case Nil
  then show ?case by simp
next
  case (Cons a as)
  obtain x w1 where g: "get_snapshot (submissionsRef (a_id a)) w = (x, w1)" by force
  then obtain os1 where w1: "w1 = w\<lparr>outages := os1\<rparr>" using get_snapshot_frame by blast
  show ?case
  proof (cases x)
    case (Inl e)
    with Cons.prems g show ?thesis by simp
  next
    case (Inr snap)
    with g w1 have snap: "snap = submissionsRef (a_id a) w" using get_snapshot_Inr by fastforce
    obtain y w2 where c: "count_submissions as w1 = (y, w2)" by force
    show ?thesis
    proof (cases y)
      case (Inl e)
      with Inr Cons.prems g c show ?thesis by simp
    next
      case (Inr rest)
      with c have "rest = map (with_count w1) as" using Cons.IH by blast
      then have "rest = map (with_count w) as" by (simp add: w1 with_count_def)
      moreover from Inr \<open>x = Inr snap\<close> Cons.prems g c
      have "r = a\<lparr>a_submissions_count := Some (length snap)\<rparr> # rest" by simp
      ultimately show ?thesis by (simp add: snap with_count_def)
    qed
  qed
qed

lemma insert_by_created:
  "insert_by by_created_desc x ys = insort_key (\<lambda>a. - created_time a) x ys"
  by (induction ys) (auto simp: by_created_desc_def)

lemma array_sort_created:
  "array_sort by_created_desc xs = sort_key (\<lambda>a. - created_time a) xs"
  by (induction xs) (simp_all add: array_sort_def sort_key_def insert_by_created)


section \<open>The three ways a run of the pipeline ends\<close>

lemma load_failed_outages:
  "load_failed e (w\<lparr>outages := os\<rparr>) = (load_failed e' w)\<lparr>outages := os\<rparr>"
  by (simp add: load_failed_def)

lemma fetchData_outcome:
  assumes act: "acting u = Some (uid, role)" and run: "fetchData u (s, w) = (s', w')"
  shows "(\<exists>os. w' = (load_failed TransportError w)\<lparr>outages := os\<rparr> \<and> s' = s\<lparr>isLoading := False\<rparr>
             \<and> fst (get_snapshot (coursesRef uid role) w) = Inl TransportError)
       \<or> (\<exists>os. w' = (load_failed TransportError w)\<lparr>outages := os\<rparr>
             \<and> s' = s\<lparr>courses := map course_of (coursesRef uid role w), isLoading := False\<rparr>
             \<and> fst (get_snapshot (coursesRef uid role) w) \<noteq> Inl TransportError)
       \<or> (\<exists>os. w' = w\<lparr>outages := os\<rparr>
             \<and> s' = s\<lparr>courses := map course_of (coursesRef uid role w),
                      assignments := array_sort by_created_desc
                         (gathered (map course_of (coursesRef uid role w)) w),
                      isLoading := False\<rparr>)"
proof -
  obtain x w1 where g: "get_snapshot (coursesRef uid role) w = (x, w1)" by force
  then obtain os1 where w1: "w1 = w\<lparr>outages := os1\<rparr>" using get_snapshot_frame by blast
  show ?thesis
  proof (cases x)
    case (Inl e)
    have "e = TransportError" by (cases e) (use g Inl in \<open>auto simp: get_snapshot_def split: prod.splits bool.splits\<close>)
    with Inl act run g w1 have "w' = (load_failed TransportError w)\<lparr>outages := os1\<rparr> \<and> s' = s\<lparr>isLoading := False\<rparr>"
      by (auto simp: fetchData_def load_failed_def)
    with g Inl \<open>e = TransportError\<close> show ?thesis by auto
  next
    case (Inr snap)
    with g w1 have snap: "snap = coursesRef uid role w" using get_snapshot_Inr by fastforce
    let ?cs = "map course_of (coursesRef uid role w)"
    obtain y w2 where c: "collect_assignments ?cs [] w1 = (y, w2)" by force
    then obtain os2 where w2: "w2 = w\<lparr>outages := os2\<rparr>"
      using collect_assignments_frame w1 by fastforce
    show ?thesis
    proof (cases y)
      case (Inl e)
      with Inr act run g c snap w2
      have "w' = (load_failed TransportError w)\<lparr>outages := os2\<rparr> \<and> s' = s\<lparr>courses := ?cs, isLoading := False\<rparr>"
        by (auto simp: fetchData_def load_failed_def)
      with g Inr show ?thesis by auto
    next
      case yr: (Inr assignmentsData)
      with c w1 have ad: "assignmentsData = concat (map (\<lambda>c. map (enrich c) (assignmentsRef (c_id c) w)) ?cs)"
        using collect_assignments_Inr[of ?cs "[]" w1 assignmentsData w2] by simp
      obtain z w3 where k: "count_submissions assignmentsData w2 = (z, w3)" by force
      then obtain os3 where w3: "w3 = w\<lparr>outages := os3\<rparr>"
        using count_submissions_frame w2 by fastforce
      show ?thesis
      proof (cases z)
        case (Inl e)
        with Inr yr act run g c k snap w3
        have "w' = (load_failed TransportError w)\<lparr>outages := os3\<rparr> \<and> s' = s\<lparr>courses := ?cs, isLoading := False\<rparr>"
          by (auto simp: fetchData_def load_failed_def)
        with g Inr show ?thesis by auto
      next
        case zr: (Inr counted)
        with k w2 have "counted = map (with_count w) assignmentsData"
          using count_submissions_Inr[of assignmentsData w2 counted w3] by (simp add: with_count_def)
        with ad have cnt: "counted = gathered ?cs w" by (simp add: gathered_def)
        from Inr yr zr act run g c k snap
        have "w' = w3 \<and> s' = s\<lparr>courses := ?cs, assignments := array_sort by_created_desc counted, isLoading := False\<rparr>"
          by (auto simp: fetchData_def)
        with cnt w3 show ?thesis by auto
      qed
    qed
  qed
qed


lemma fetchData_success:
  assumes "acting u = Some (uid, role)" "fetchData u (s, w) = (s', w')" "toasts w' = toasts w"
  shows "courses s' = map course_of (coursesRef uid role w)"
    and "assignments s' = array_sort by_created_desc (gathered (courses s') w)"
  using fetchData_outcome[OF assms(1,2)] assms(3) by (auto simp: load_failed_def)

lemma set_array_sort_created: "set (array_sort by_created_desc xs) = set xs"
  by (simp add: array_sort_created)

lemma in_gathered:
  "a \<in> set (gathered cs w) \<longleftrightarrow>
     (\<exists>c \<in> set cs. \<exists>kd \<in> set (db_assignments w).
         ad_course_id (snd kd) = c_id c \<and> a = with_count w (enrich c kd))"
  unfolding gathered_def assignmentsRef_def by (force simp: image_iff)

lemmas scenario_defs = scenario_def doc_for_def teacher_U1_def admin_U0_def initial_state_def empty_form_def
lemmas pipeline_defs = fetchData_def acting_def get_snapshot_def round_trip_def coursesRef_def
  assignmentsRef_def submissionsRef_def course_of_def enrich_def array_sort_def
  by_created_desc_def created_time_def load_failed_def

lemma scenario_run:
  "fetchData (Some teacher_U1) (initial_state, scenario) =
     (\<lparr>assignments =
        [with_count scenario (enrich \<lparr>c_id = ''C1'', c_title = ''Algebra'', c_instructor_id = ''U1''\<rparr>
            (''A3'', doc_for ''three'' ''C1'' (Some 3000))),
         with_count scenario (enrich \<lparr>c_id = ''C1'', c_title = ''Algebra'', c_instructor_id = ''U1''\<rparr>
            (''A1'', doc_for ''one'' ''C1'' (Some 1000)))],
       courses = [\<lparr>c_id = ''C1'', c_title = ''Algebra'', c_instructor_id = ''U1''\<rparr>],
       isLoading = False, isAddDialogOpen = False, newAssignment = empty_form\<rparr>, scenario)"
  by (simp add: scenario_defs pipeline_defs with_count_def)

section \<open>Course scope and ownership\<close>

text \<open>
  Claim C1. Let the acting user have a present (truthy) id and let the run end without a
  failure notification. Then the courses it stores are exactly the courses whose
  \<open>instructor_id\<close> is the user's id when the role is \<open>teacher\<close>, and the whole course
  collection for every other role; every assignment it produces references a course of
  that scope and carries that course's title; and for a teacher every assignment's course
  is a course of the store that the teacher owns.
\<close>

theorem scope_and_ownership:
  assumes "u = Some usr" and "user_id usr = Some uid" and "uid \<noteq> []"
    and "fetchData u (s, w) = (s', w')" and "toasts w' = toasts w"
  shows "courses s' = map course_of
            (if user_role usr = ''teacher''
             then filter (\<lambda>(k, d). cd_instructor_id d = uid) (db_courses w)
             else db_courses w)
       \<and> (\<forall>a \<in> set (assignments s'). \<exists>c \<in> set (courses s').
             a_course_id a = c_id c \<and> a_course_title a = c_title c)
       \<and> (user_role usr = ''teacher'' \<longrightarrow>
            (\<forall>a \<in> set (assignments s'). \<exists>d. (a_course_id a, d) \<in> set (db_courses w)
                \<and> cd_instructor_id d = uid))"
proof -
  from assms(1-3) have act: "acting u = Some (uid, user_role usr)" by (simp add: acting_def)
  note ok = fetchData_success[OF act assms(4,5)]
  have scope: "courses s' = map course_of
            (if user_role usr = ''teacher''
             then filter (\<lambda>(k, d). cd_instructor_id d = uid) (db_courses w)
             else db_courses w)"
    using ok(1) by (simp add: coursesRef_def)
  have mem: "\<exists>c \<in> set (courses s'). a_course_id a = c_id c \<and> a_course_title a = c_title c"
    if "a \<in> set (assignments s')" for a
  proof -
    from that ok(2) have "a \<in> set (gathered (courses s') w)" by (simp add: set_array_sort_created)
    then obtain c kd where "c \<in> set (courses s')" "ad_course_id (snd kd) = c_id c"
      "a = with_count w (enrich c kd)" unfolding in_gathered by blast
    then show ?thesis by (auto simp: with_count_def enrich_def)
  qed
  have own: "\<exists>d. (a_course_id a, d) \<in> set (db_courses w) \<and> cd_instructor_id d = uid"
    if "a \<in> set (assignments s')" and "user_role usr = ''teacher''" for a
  proof -
    from mem[OF that(1)] obtain c where c: "c \<in> set (courses s')" "a_course_id a = c_id c" by blast
    from c(1) scope that(2) obtain k d where "(k, d) \<in> set (db_courses w)" "cd_instructor_id d = uid"
      "c = course_of (k, d)" by auto
    with c(2) show ?thesis by (auto simp: course_of_def)
  qed
  from scope mem own show ?thesis by blast
qed


theorem scope_and_ownership_witness:
  "user_id teacher_U1 = Some ''U1'' \<and> ''U1'' \<noteq> []
   \<and> toasts (snd (fetchData (Some teacher_U1) (initial_state, scenario))) = toasts scenario
   \<and> courses (fst (fetchData (Some teacher_U1) (initial_state, scenario)))
       = [\<lparr>c_id = ''C1'', c_title = ''Algebra'', c_instructor_id = ''U1''\<rparr>]
   \<and> a_course_id ` set (assignments (fst (fetchData (Some teacher_U1) (initial_state, scenario))))
        \<subseteq> {k. \<exists>d. (k, d) \<in> set (db_courses scenario) \<and> cd_instructor_id d = ''U1''}"
proof -
  let ?r = "fetchData (Some teacher_U1) (initial_state, scenario)"
  have h2: "user_id teacher_U1 = Some ''U1''" by (simp add: teacher_U1_def)
  have h3: "''U1'' \<noteq> []" by simp
  have h4: "?r = (fst ?r, snd ?r)" by simp
  have h5: "toasts (snd ?r) = toasts scenario" by (simp add: scenario_run)
  have role: "user_role teacher_U1 = ''teacher''" by (simp add: teacher_U1_def)
  have cs: "courses (fst ?r) = [\<lparr>c_id = ''C1'', c_title = ''Algebra'', c_instructor_id = ''U1''\<rparr>]"
    by (simp add: scenario_run)
  from scope_and_ownership[OF refl h2 h3 h4 h5] role
  have "\<forall>a \<in> set (assignments (fst ?r)).
         \<exists>d. (a_course_id a, d) \<in> set (db_courses scenario) \<and> cd_instructor_id d = ''U1''"
    by blast
  then have "a_course_id ` set (assignments (fst ?r))
        \<subseteq> {k. \<exists>d. (k, d) \<in> set (db_courses scenario) \<and> cd_instructor_id d = ''U1''}"
    by blast
  with h2 h3 h5 cs show ?thesis by blast
qed

section \<open>Enrichment\<close>

text \<open>
  Claim C2. In a run that ends without a failure notification, the sequence is the sorted
  concatenation, course by course in scope order, of exactly the assignments whose
  \<open>course_id\<close> is that course's id, each with the key as id and the parent course's
  title. In particular, with two courses of which only the first is owned by the teacher,
  and three assignments of which the first and third belong to the first course, the
  teacher's run yields exactly the first and third, both titled after the first course,
  and not the second.
\<close>

theorem enrichment_per_course:
  assumes "u = Some usr" and "user_id usr = Some uid" and "uid \<noteq> []"
    and "fetchData u (s, w) = (s', w')" and "toasts w' = toasts w"
  shows "assignments s' = array_sort by_created_desc (map (with_count w)
            (concat (map (\<lambda>c. map (enrich c)
                (filter (\<lambda>(k, d). ad_course_id d = c_id c) (db_assignments w))) (courses s'))))
       \<and> (\<forall>a. a \<in> set (assignments s') \<longleftrightarrow>
             (\<exists>c \<in> set (courses s'). \<exists>kd \<in> set (db_assignments w).
                 ad_course_id (snd kd) = c_id c \<and> a = with_count w (enrich c kd)))
       \<and> (\<forall>c kd. a_course_title (with_count w (enrich c kd)) = c_title c
                \<and> a_id (with_count w (enrich c kd)) = fst kd
                \<and> a_course_id (with_count w (enrich c kd)) = ad_course_id (snd kd))
       \<and> (user_role usr = ''teacher''
            \<and> set (db_courses w) = {(k1, d1), (k2, d2)} \<and> k1 \<noteq> k2
            \<and> cd_instructor_id d1 = uid \<and> cd_instructor_id d2 \<noteq> uid
            \<and> set (db_assignments w) = {(i1, x1), (i2, x2), (i3, x3)}
            \<and> i2 \<noteq> i1 \<and> i2 \<noteq> i3
            \<and> ad_course_id x1 = k1 \<and> ad_course_id x2 = k2 \<and> ad_course_id x3 = k1
          \<longrightarrow> set (assignments s') = {with_count w (enrich (course_of (k1, d1)) (i1, x1)),
                                      with_count w (enrich (course_of (k1, d1)) (i3, x3))}
              \<and> (\<forall>a \<in> set (assignments s'). a_course_title a = cd_title d1)
              \<and> i2 \<notin> a_id ` set (assignments s'))"
proof -
  from assms(1-3) have act: "acting u = Some (uid, user_role usr)" by (simp add: acting_def)
  note ok = fetchData_success[OF act assms(4,5)]
  have seq: "assignments s' = array_sort by_created_desc (map (with_count w)
            (concat (map (\<lambda>c. map (enrich c)
                (filter (\<lambda>(k, d). ad_course_id d = c_id c) (db_assignments w))) (courses s'))))"
    using ok(2) by (simp add: gathered_def assignmentsRef_def)
  have mem: "a \<in> set (assignments s') \<longleftrightarrow>
             (\<exists>c \<in> set (courses s'). \<exists>kd \<in> set (db_assignments w).
                 ad_course_id (snd kd) = c_id c \<and> a = with_count w (enrich c kd))" for a
    using ok(2) by (simp add: set_array_sort_created in_gathered)
  have fields: "a_course_title (with_count w (enrich c kd)) = c_title c
                \<and> a_id (with_count w (enrich c kd)) = fst kd
                \<and> a_course_id (with_count w (enrich c kd)) = ad_course_id (snd kd)" for c kd
    by (simp add: with_count_def enrich_def)
  have scen: "set (assignments s') = {with_count w (enrich (course_of (k1, d1)) (i1, x1)),
                                      with_count w (enrich (course_of (k1, d1)) (i3, x3))}
              \<and> (\<forall>a \<in> set (assignments s'). a_course_title a = cd_title d1)
              \<and> i2 \<notin> a_id ` set (assignments s')"
    if t: "user_role usr = ''teacher''"
      and cs: "set (db_courses w) = {(k1, d1), (k2, d2)}" "k1 \<noteq> k2"
      and own: "cd_instructor_id d1 = uid" "cd_instructor_id d2 \<noteq> uid"
      and as: "set (db_assignments w) = {(i1, x1), (i2, x2), (i3, x3)}"
      and ids: "i2 \<noteq> i1" "i2 \<noteq> i3"
      and par: "ad_course_id x1 = k1" "ad_course_id x2 = k2" "ad_course_id x3 = k1"
  proof -
    have "set (courses s') = course_of ` {kd \<in> set (db_courses w). cd_instructor_id (snd kd) = uid}"
      using ok(1) t by (auto simp: coursesRef_def)
    also have "{kd \<in> set (db_courses w). cd_instructor_id (snd kd) = uid} = {(k1, d1)}"
      using cs own by auto
    finally have scope: "set (courses s') = {course_of (k1, d1)}" by simp
    have cid: "c_id (course_of (k1, d1)) = k1" by (simp add: course_of_def)
    have set_eq: "set (assignments s') = {with_count w (enrich (course_of (k1, d1)) (i1, x1)),
                                      with_count w (enrich (course_of (k1, d1)) (i3, x3))}"
    proof (rule set_eqI)
      fix a
      show "a \<in> set (assignments s') \<longleftrightarrow>
            a \<in> {with_count w (enrich (course_of (k1, d1)) (i1, x1)),
                 with_count w (enrich (course_of (k1, d1)) (i3, x3))}"
        unfolding mem scope as using par cs(2) by (auto simp: cid)
    qed
    have "a_course_title a = cd_title d1" if "a \<in> set (assignments s')" for a
      using that unfolding set_eq by (auto simp: with_count_def enrich_def course_of_def)
    moreover have "i2 \<notin> a_id ` set (assignments s')"
      unfolding set_eq using ids by (auto simp: with_count_def enrich_def)
    ultimately show ?thesis using set_eq by blast
  qed
  from seq mem fields scen show ?thesis by blast
qed


theorem enrichment_per_course_witness:
  "user_id teacher_U1 = Some ''U1'' \<and> ''U1'' \<noteq> []
   \<and> toasts (snd (fetchData (Some teacher_U1) (initial_state, scenario))) = toasts scenario
   \<and> map a_id (assignments (fst (fetchData (Some teacher_U1) (initial_state, scenario))))
        = [''A3'', ''A1'']
   \<and> a_course_title ` set (assignments (fst (fetchData (Some teacher_U1) (initial_state, scenario))))
        \<subseteq> {''Algebra''}
   \<and> ''A2'' \<notin> a_id ` set (assignments (fst (fetchData (Some teacher_U1) (initial_state, scenario))))"
proof -
  let ?r = "fetchData (Some teacher_U1) (initial_state, scenario)"
  let ?d1 = "\<lparr>cd_title = ''Algebra'', cd_instructor_id = ''U1''\<rparr>"
  let ?d2 = "\<lparr>cd_title = ''Botany'', cd_instructor_id = ''U2''\<rparr>"
  have h2: "user_id teacher_U1 = Some ''U1''" by (simp add: teacher_U1_def)
  have h3: "''U1'' \<noteq> []" by simp
  have h4: "?r = (fst ?r, snd ?r)" by simp
  have h5: "toasts (snd ?r) = toasts scenario" by (simp add: scenario_run)
  have ids: "map a_id (assignments (fst ?r)) = [''A3'', ''A1'']"
    by (simp add: scenario_run with_count_def enrich_def)
  have pre: "user_role teacher_U1 = ''teacher''
            \<and> set (db_courses scenario) = {(''C1'', ?d1), (''C2'', ?d2)} \<and> ''C1'' \<noteq> ''C2''
            \<and> cd_instructor_id ?d1 = ''U1'' \<and> cd_instructor_id ?d2 \<noteq> ''U1''
            \<and> set (db_assignments scenario) = {(''A1'', doc_for ''one'' ''C1'' (Some 1000)),
                 (''A2'', doc_for ''two'' ''C2'' (Some 2000)), (''A3'', doc_for ''three'' ''C1'' (Some 3000))}
            \<and> ''A2'' \<noteq> ''A1'' \<and> ''A2'' \<noteq> ''A3''
            \<and> ad_course_id (doc_for ''one'' ''C1'' (Some 1000)) = ''C1''
            \<and> ad_course_id (doc_for ''two'' ''C2'' (Some 2000)) = ''C2''
            \<and> ad_course_id (doc_for ''three'' ''C1'' (Some 3000)) = ''C1''"
    by (simp add: teacher_U1_def scenario_def doc_for_def)
  from enrichment_per_course[OF refl h2 h3 h4 h5, where ?k1.0 = "''C1''" and ?d1.0 = ?d1
      and ?k2.0 = "''C2''" and ?d2.0 = ?d2 and ?i1.0 = "''A1''" and ?i2.0 = "''A2''" and ?i3.0 = "''A3''"
      and ?x1.0 = "doc_for ''one'' ''C1'' (Some 1000)" and ?x2.0 = "doc_for ''two'' ''C2'' (Some 2000)"
      and ?x3.0 = "doc_for ''three'' ''C1'' (Some 3000)"] pre
  have "(\<forall>a \<in> set (assignments (fst ?r)). a_course_title a = cd_title ?d1)
        \<and> ''A2'' \<notin> a_id ` set (assignments (fst ?r))"
    by blast
  then have "a_course_title ` set (assignments (fst ?r)) \<subseteq> {''Algebra''}
        \<and> ''A2'' \<notin> a_id ` set (assignments (fst ?r))" by auto
  with h2 h3 h5 ids show ?thesis by blast
qed

section \<open>Ordering\<close>

lemma three_descending:
  fixes f :: "'a \<Rightarrow> int"
  assumes srt: "sorted_wrt (\<lambda>a b. f b \<le> f a) ys" and ms: "mset ys = {#p, q, r#}"
    and pq: "f q < f p" and qr: "f r < f q"
  shows "ys = [p, q, r]"
proof -
  from ms have "length ys = 3" by (metis size_mset size_add_mset size_empty numeral_3_eq_3)
  then obtain a b c where ys: "ys = [a, b, c]"
    by (auto simp: numeral_3_eq_3 length_Suc_conv)
  from srt ys have ord: "f b \<le> f a" "f c \<le> f b" "f c \<le> f a" by auto
  from ms ys have st: "set [a, b, c] = {p, q, r}" by (metis set_mset_mset set_mset_add_mset_insert set_mset_empty)
  from ms ys have cnt: "{#a, b, c#} = {#p, q, r#}" by simp
  have pqr: "p \<noteq> q" "q \<noteq> r" "p \<noteq> r" using pq qr by auto
  have "image_mset f {#a, b, c#} = image_mset f {#p, q, r#}" using cnt by simp
  then have keys: "{#f a, f b, f c#} = {#f p, f q, f r#}" by simp
  have "sorted [f c, f b, f a]" using ord by simp
  moreover have "sorted [f r, f q, f p]" using pq qr by simp
  moreover have "mset [f c, f b, f a] = mset [f r, f q, f p]" using keys by (simp add: add_mset_commute)
  ultimately have "[f c, f b, f a] = [f r, f q, f p]" by (metis properties_for_sort sorted_sort_id)
  then have fa: "f a = f p" "f b = f q" "f c = f r" by auto
  from st have mem: "a \<in> {p, q, r}" "b \<in> {p, q, r}" "c \<in> {p, q, r}" by auto
  have ne: "f q \<noteq> f p" "f r \<noteq> f p" "f r \<noteq> f q" using pq qr by auto
  have "a = p"
  proof -
    from mem(1) consider "a = p" | "a = q" | "a = r" by auto
    then show ?thesis by cases (use fa(1) ne in simp_all)
  qed
  moreover have "b = q"
  proof -
    from mem(2) consider "b = p" | "b = q" | "b = r" by auto
    then show ?thesis by cases (use fa(2) ne in simp_all)
  qed
  moreover have "c = r"
  proof -
    from mem(3) consider "c = p" | "c = q" | "c = r" by auto
    then show ?thesis by cases (use fa(3) ne in simp_all)
  qed
  ultimately show ?thesis using ys by simp
qed

lemma sorted_array_sort_created:
  "sorted_wrt (\<lambda>a b. created_time b \<le> created_time a) (array_sort by_created_desc xs)"
proof -
  have "sorted (map (\<lambda>a. - created_time a) (sort_key (\<lambda>a. - created_time a) xs))"
    by (rule sorted_sort_key)
  then show ?thesis by (simp add: array_sort_created sorted_map)
qed

text \<open>
  Claim C3, as stated, fails: an assignment without \<open>created_at\<close> is ordered as the epoch,
  which is not the oldest when another assignment was created before the epoch. With
  \<open>created_at\<close> values 1000, -1000 and missing, the output order is 1000, missing, -1000.
\<close>

theorem newest_first_counterexample:
  "(- 1000 :: int) < 1000 \<and> 
   map a_created_at (assignments (fst (fetchData (Some admin_U0) (initial_state, before_epoch))))
     = [Some 1000, None, Some (- 1000)]"
  by (simp add: scenario_defs before_epoch_def pipeline_defs with_count_def)

text \<open>
  Claim C3, amended. In a run that ends without a failure notification, the sequence is
  sorted descending by creation time, where a missing \<open>created_at\<close> counts as the epoch
  (time 0); so for three assignments with \<open>created_at\<close> values \<open>t2\<close>, \<open>t1\<close> and
  missing, where \<open>t2 > t1\<close> and \<open>t1\<close> is later than the epoch, the output order is
  \<open>t2\<close>, \<open>t1\<close>, missing.
\<close>

theorem newest_first:
  assumes "u = Some usr" and "user_id usr = Some uid" and "uid \<noteq> []"
    and "fetchData u (s, w) = (s', w')" and "toasts w' = toasts w"
  shows "sorted_wrt (\<lambda>a b. created_time b \<le> created_time a) (assignments s')
       \<and> (\<forall>a \<in> set (assignments s'). a_created_at a = None \<longrightarrow> created_time a = 0)
       \<and> (\<forall>a \<in> set (assignments s'). \<forall>t. a_created_at a = Some t \<longrightarrow> created_time a = t)
       \<and> (mset (assignments s') = {#x2, x1, x0#}
            \<and> a_created_at x2 = Some t2 \<and> a_created_at x1 = Some t1 \<and> a_created_at x0 = None
            \<and> t1 < t2 \<and> 0 < t1
          \<longrightarrow> assignments s' = [x2, x1, x0])"
proof -
  from assms(1-3) have act: "acting u = Some (uid, user_role usr)" by (simp add: acting_def)
  note ok = fetchData_success[OF act assms(4,5)]
  have srt: "sorted_wrt (\<lambda>a b. created_time b \<le> created_time a) (assignments s')"
    unfolding ok(2) by (rule sorted_array_sort_created)
  have three: "assignments s' = [x2, x1, x0]"
    if "mset (assignments s') = {#x2, x1, x0#}" "a_created_at x2 = Some t2"
      "a_created_at x1 = Some t1" "a_created_at x0 = None" "t1 < t2" "0 < t1"
    using that three_descending[OF srt that(1)] by (simp add: created_time_def)
  from srt three show ?thesis by (auto simp: created_time_def)
qed


lemma undated_first_run:
  "fetchData (Some admin_U0) (initial_state, undated_first) =
     (\<lparr>assignments =
        [with_count undated_first (enrich \<lparr>c_id = ''C1'', c_title = ''Algebra'', c_instructor_id = ''U1''\<rparr>
            (''A3'', doc_for ''late'' ''C1'' (Some 2000))),
         with_count undated_first (enrich \<lparr>c_id = ''C1'', c_title = ''Algebra'', c_instructor_id = ''U1''\<rparr>
            (''A2'', doc_for ''early'' ''C1'' (Some 1000))),
         with_count undated_first (enrich \<lparr>c_id = ''C1'', c_title = ''Algebra'', c_instructor_id = ''U1''\<rparr>
            (''A1'', doc_for ''undated'' ''C1'' None))],
       courses = [\<lparr>c_id = ''C1'', c_title = ''Algebra'', c_instructor_id = ''U1''\<rparr>],
       isLoading = False, isAddDialogOpen = False, newAssignment = empty_form\<rparr>, undated_first)"
  by (simp add: scenario_defs undated_first_def pipeline_defs with_count_def)

theorem newest_first_witness:
  "user_id admin_U0 = Some ''U0'' \<and> ''U0'' \<noteq> []
   \<and> toasts (snd (fetchData (Some admin_U0) (initial_state, undated_first))) = toasts undated_first
   \<and> (1000 :: int) < 2000 \<and> (0 :: int) < 1000
   \<and> map a_created_at (assignments (fst (fetchData (Some admin_U0) (initial_state, undated_first))))
        = [Some 2000, Some 1000, None]
   \<and> sorted_wrt (\<lambda>a b. created_time b \<le> created_time a)
        (assignments (fst (fetchData (Some admin_U0) (initial_state, undated_first))))"
proof -
  let ?r = "fetchData (Some admin_U0) (initial_state, undated_first)"
  let ?c = "\<lparr>c_id = ''C1'', c_title = ''Algebra'', c_instructor_id = ''U1''\<rparr>"
  let ?x2 = "with_count undated_first (enrich ?c (''A3'', doc_for ''late'' ''C1'' (Some 2000)))"
  let ?x1 = "with_count undated_first (enrich ?c (''A2'', doc_for ''early'' ''C1'' (Some 1000)))"
  let ?x0 = "with_count undated_first (enrich ?c (''A1'', doc_for ''undated'' ''C1'' None))"
  have h2: "user_id admin_U0 = Some ''U0''" by (simp add: admin_U0_def)
  have h3: "''U0'' \<noteq> []" by simp
  have h4: "?r = (fst ?r, snd ?r)" by simp
  have h5: "toasts (snd ?r) = toasts undated_first" by (simp add: undated_first_run)
  have pre: "mset (assignments (fst ?r)) = {#?x2, ?x1, ?x0#}
            \<and> a_created_at ?x2 = Some 2000 \<and> a_created_at ?x1 = Some 1000 \<and> a_created_at ?x0 = None
            \<and> (1000 :: int) < 2000 \<and> (0 :: int) < 1000"
    by (simp add: undated_first_run with_count_def enrich_def doc_for_def)
  from newest_first[OF refl h2 h3 h4 h5, where ?x2.0 = ?x2 and ?x1.0 = ?x1 and ?x0.0 = ?x0
      and ?t2.0 = 2000 and ?t1.0 = 1000] pre
  have res: "assignments (fst ?r) = [?x2, ?x1, ?x0]
           \<and> sorted_wrt (\<lambda>a b. created_time b \<le> created_time a) (assignments (fst ?r))"
    by blast
  then have "map a_created_at (assignments (fst ?r)) = [Some 2000, Some 1000, None]"
    by (simp add: with_count_def enrich_def doc_for_def)
  moreover have "(1000 :: int) < 2000" "(0 :: int) < 1000" by simp_all
  ultimately show ?thesis using h2 h3 h5 res by blast
qed

section \<open>The active view\<close>

text \<open>
  Claim C7. The active view keeps, in order, exactly the assignments whose \<open>due_date\<close> is
  absent or not earlier than now: an assignment due one day (86400000 ms) ago is excluded,
  and an assignment of the sequence without \<open>due_date\<close> is included.
\<close>

theorem active_view:
  "activeAssignments now as
      = filter (\<lambda>a. a_due_date a = None \<or> (\<exists>d. a_due_date a = Some d \<and> now \<le> d)) as
   \<and> (a \<in> set (activeAssignments now as) \<longleftrightarrow>
        a \<in> set as \<and> (a_due_date a = None \<or> (\<exists>d. a_due_date a = Some d \<and> now \<le> d)))
   \<and> (a_due_date a = Some (now - 86400000) \<longrightarrow> a \<notin> set (activeAssignments now as))
   \<and> (a \<in> set as \<and> a_due_date a = None \<longrightarrow> a \<in> set (activeAssignments now as))"
proof -
  have eq: "(\<not> isDueDatePassed now x) = (a_due_date x = None \<or> (\<exists>d. a_due_date x = Some d \<and> now \<le> d))"
    for x by (cases "a_due_date x") (auto simp: isDueDatePassed_def)
  then have "activeAssignments now as
      = filter (\<lambda>a. a_due_date a = None \<or> (\<exists>d. a_due_date a = Some d \<and> now \<le> d)) as"
    by (simp add: activeAssignments_def)
  then show ?thesis by auto
qed

theorem active_view_witness:
  "a_due_date (due_in (Some (5000 - 86400000))) = Some (5000 - 86400000)
   \<and> due_in (Some (5000 - 86400000)) \<notin> set (activeAssignments 5000 [due_in (Some (5000 - 86400000)), due_in None])
   \<and> due_in None \<in> set [due_in (Some (5000 - 86400000)), due_in None]
   \<and> a_due_date (due_in None) = None
   \<and> due_in None \<in> set (activeAssignments 5000 [due_in (Some (5000 - 86400000)), due_in None])"
  using active_view[of 5000 "[due_in (Some (5000 - 86400000)), due_in None]" "due_in (Some (5000 - 86400000))"]
    active_view[of 5000 "[due_in (Some (5000 - 86400000)), due_in None]" "due_in None"]
  by (simp add: due_in_def)

section \<open>The acting user without an id\<close>

lemma fetchData_no_user: "fetchData None (s, w) = (s\<lparr>isLoading := False\<rparr>, w)"
  by (simp add: fetchData_def acting_def)

lemma admin_run_ids:
  "map a_id (assignments (fst (fetchData (Some admin_U0) (initial_state, scenario))))
     = [''A3'', ''A2'', ''A1'']"
  "map c_id (courses (fst (fetchData (Some admin_U0) (initial_state, scenario))))
     = [''C1'', ''C2'']"
  by (simp_all add: scenario_defs pipeline_defs with_count_def)

text \<open>
  Claim C9, as stated, fails: the short circuit clears nothing, so the result is empty
  only when nothing was loaded before. After an administrator's load of the scenario, a
  run without acting user still shows the three assignments and the two courses.
\<close>

theorem absent_user_counterexample:
  "map a_id (assignments (fst (fetchData None
       (fst (fetchData (Some admin_U0) (initial_state, scenario)), scenario))))
     = [''A3'', ''A2'', ''A1'']
   \<and> map c_id (courses (fst (fetchData None
       (fst (fetchData (Some admin_U0) (initial_state, scenario)), scenario))))
     = [''C1'', ''C2'']"
  by (simp add: fetchData_no_user admin_run_ids)

text \<open>
  Claim C9, amended. If there is no acting user, or the user's id is absent (or the empty
  string, which the guard treats alike), the run short-circuits before any fetch: it ends
  the loading state and does nothing else. The store sees no round trip, nothing is
  notified or logged, and neither the course list nor the assignment sequence is written:
  both stay as they were, so the freshly mounted component shows no course and no
  assignment.
\<close>

theorem absent_user_short_circuit:
  assumes "u = None \<or> (\<exists>usr. u = Some usr \<and> (user_id usr = None \<or> user_id usr = Some []))"
  shows "fetchData u (s, w) = (s\<lparr>isLoading := False\<rparr>, w)
       \<and> assignments (fst (fetchData u (s, w))) = assignments s
       \<and> courses (fst (fetchData u (s, w))) = courses s
       \<and> \<not> isLoading (fst (fetchData u (s, w)))
       \<and> snd (fetchData u (s, w)) = w
       \<and> assignments (fst (fetchData u (initial_state, w))) = []
       \<and> courses (fst (fetchData u (initial_state, w))) = []
       \<and> \<not> isLoading (fst (fetchData u (initial_state, w)))
       \<and> snd (fetchData u (initial_state, w)) = w"
proof -
  from assms have "acting u = None" by (auto simp: acting_def)
  then have "fetchData u (t, w) = (t\<lparr>isLoading := False\<rparr>, w)" for t
    by (simp add: fetchData_def)
  then show ?thesis by (simp add: initial_state_def)
qed

theorem absent_user_short_circuit_witness:
  "fetchData (Some \<lparr>user_id = None, user_role = ''teacher''\<rparr>) (initial_state, scenario)
      = (initial_state\<lparr>isLoading := False\<rparr>, scenario)
   \<and> fetchData None (initial_state, scenario) = (initial_state\<lparr>isLoading := False\<rparr>, scenario)
   \<and> assignments (fst (fetchData None (initial_state, scenario))) = []
   \<and> courses (fst (fetchData None (initial_state, scenario))) = []
   \<and> assignments (fst (fetchData None
        (fst (fetchData (Some admin_U0) (initial_state, scenario)), scenario)))
      = assignments (fst (fetchData (Some admin_U0) (initial_state, scenario)))
   \<and> courses (fst (fetchData None
        (fst (fetchData (Some admin_U0) (initial_state, scenario)), scenario)))
      = courses (fst (fetchData (Some admin_U0) (initial_state, scenario)))
   \<and> snd (fetchData None
        (fst (fetchData (Some admin_U0) (initial_state, scenario)), scenario)) = scenario"
proof -
  let ?u = "Some \<lparr>user_id = None, user_role = ''teacher''\<rparr>"
  let ?l = "fst (fetchData (Some admin_U0) (initial_state, scenario))"
  have a1: "?u = None \<or> (\<exists>usr. ?u = Some usr \<and> (user_id usr = None \<or> user_id usr = Some []))"
    by simp
  have a2: "(None :: user option) = None
            \<or> (\<exists>usr. None = Some usr \<and> (user_id usr = None \<or> user_id usr = Some []))"
    by simp
  from absent_user_short_circuit[OF a1, of initial_state scenario]
    absent_user_short_circuit[OF a2, of initial_state scenario]
    absent_user_short_circuit[OF a2, of ?l scenario]
  show ?thesis by blast
qed

section \<open>Deleting an assignment\<close>

lemma round_trip_ok:
  "fst (round_trip w) \<Longrightarrow> round_trip w = (True, w\<lparr>outages := tl (outages w)\<rparr>)"
  by (cases "outages w") (auto simp: round_trip_def)

lemma round_trip_rejected:
  "\<not> fst (round_trip w) \<Longrightarrow> round_trip w = (False, w\<lparr>outages := tl (outages w)\<rparr>)"
  by (cases "outages w") (auto simp: round_trip_def)

text \<open>
  Claim C6. After confirmation, when the removal's round trip succeeds, the record with the
  given key is removed from the store and the in-memory sequence becomes the old sequence
  without the assignments of that id: every other assignment stays, unmodified and in its
  relative order. No other record of the store changes, the courses and submissions are
  untouched, exactly one round trip is made (no refetch, no reload), and without
  confirmation nothing happens at all.
\<close>

theorem delete_removes_only_that:
  assumes "fst (round_trip w)" and "handleDeleteAssignment True aid (s, w) = (s', w')"
  shows "assignments s' = filter (\<lambda>a. a_id a \<noteq> aid) (assignments s)
       \<and> (\<forall>a \<in> set (assignments s). a_id a \<noteq> aid \<longrightarrow> a \<in> set (assignments s'))
       \<and> db_assignments w' = filter (\<lambda>(k, d). k \<noteq> aid) (db_assignments w)
       \<and> (\<forall>k d. k \<noteq> aid \<longrightarrow> ((k, d) \<in> set (db_assignments w') \<longleftrightarrow> (k, d) \<in> set (db_assignments w)))
       \<and> db_courses w' = db_courses w \<and> db_submissions w' = db_submissions w
       \<and> outages w' = tl (outages w) \<and> reloads w' = reloads w
       \<and> courses s' = courses s \<and> isLoading s' = isLoading s
       \<and> toasts w' = toasts w @ [ToastSuccess ''Assignment deleted successfully'']
       \<and> handleDeleteAssignment False aid (s, w) = (s, w)"
proof -
  from assms(1) have rt: "round_trip w = (True, w\<lparr>outages := tl (outages w)\<rparr>)"
    by (rule round_trip_ok)
  with assms(2) have s': "s' = s\<lparr>assignments := filter (\<lambda>a. a_id a \<noteq> aid) (assignments s)\<rparr>"
    and w': "w' = w\<lparr>outages := tl (outages w),
                   db_assignments := filter (\<lambda>(k, d). k \<noteq> aid) (db_assignments w),
                   toasts := toasts w @ [ToastSuccess ''Assignment deleted successfully'']\<rparr>"
    by (auto simp: handleDeleteAssignment_def remove_assignment_def)
  have "handleDeleteAssignment False aid (s, w) = (s, w)"
    by (simp add: handleDeleteAssignment_def)
  with s' w' show ?thesis by auto
qed

theorem delete_removes_only_that_witness:
  "fst (round_trip scenario)
   \<and> map a_id (assignments (fst (fetchData (Some admin_U0) (initial_state, scenario))))
        = [''A3'', ''A2'', ''A1'']
   \<and> map a_id (assignments (fst (handleDeleteAssignment True ''A2''
         (fetchData (Some admin_U0) (initial_state, scenario))))) = [''A3'', ''A1'']
   \<and> map fst (db_assignments (snd (handleDeleteAssignment True ''A2''
         (fetchData (Some admin_U0) (initial_state, scenario))))) = [''A1'', ''A3'']"
proof -
  let ?l = "fetchData (Some admin_U0) (initial_state, scenario)"
  let ?r = "handleDeleteAssignment True ''A2'' ?l"
  have l: "?l = (fst ?l, scenario)" and ids: "map a_id (assignments (fst ?l)) = [''A3'', ''A2'', ''A1'']"
    by (simp_all add: scenario_defs pipeline_defs with_count_def)
  have h1: "fst (round_trip scenario)" by (simp add: round_trip_def scenario_def)
  have h2: "handleDeleteAssignment True ''A2'' (fst ?l, scenario) = (fst ?r, snd ?r)"
    using l by simp
  from delete_removes_only_that[OF h1 h2]
  have a: "assignments (fst ?r) = filter (\<lambda>a. a_id a \<noteq> ''A2'') (assignments (fst ?l))"
    and d: "db_assignments (snd ?r) = filter (\<lambda>(k, d). k \<noteq> ''A2'') (db_assignments scenario)"
    by blast+
  have "map a_id (assignments (fst ?r)) = filter (\<lambda>i. i \<noteq> ''A2'') (map a_id (assignments (fst ?l)))"
    unfolding a by (simp add: filter_map comp_def)
  then have "map a_id (assignments (fst ?r)) = [''A3'', ''A1'']" unfolding ids by simp
  moreover from d have "map fst (db_assignments (snd ?r)) = [''A1'', ''A3'']"
    by (simp add: scenario_def)
  ultimately show ?thesis using h1 ids by blast
qed

text \<open>
  Claim C10. Deleting, after confirmation, an id that no assignment of the in-memory
  sequence has leaves the component state exactly as it was and still reports success;
  the removal is sent to the store whether or not the store or the sequence holds the id.
\<close>

theorem delete_unknown_id:
  assumes "aid \<notin> a_id ` set (assignments s)" and "fst (round_trip w)"
  shows "fst (handleDeleteAssignment True aid (s, w)) = s
       \<and> toasts (snd (handleDeleteAssignment True aid (s, w)))
           = toasts w @ [ToastSuccess ''Assignment deleted successfully'']
       \<and> console (snd (handleDeleteAssignment True aid (s, w))) = console w
       \<and> outages (snd (handleDeleteAssignment True aid (s, w))) = tl (outages w)
       \<and> db_assignments (snd (handleDeleteAssignment True aid (s, w)))
           = filter (\<lambda>(k, d). k \<noteq> aid) (db_assignments w)"
proof -
  from assms(2) have rt: "round_trip w = (True, w\<lparr>outages := tl (outages w)\<rparr>)"
    by (rule round_trip_ok)
  from assms(1) have "filter (\<lambda>a. a_id a \<noteq> aid) (assignments s) = assignments s"
    by (auto simp: filter_id_conv)
  then have "s\<lparr>assignments := filter (\<lambda>a. a_id a \<noteq> aid) (assignments s)\<rparr> = s" by simp
  with rt show ?thesis
    by (simp add: handleDeleteAssignment_def remove_assignment_def)
qed

theorem delete_unknown_id_witness:
  "''A9'' \<notin> a_id ` set (assignments (fst (fetchData (Some admin_U0) (initial_state, scenario))))
   \<and> fst (round_trip scenario)
   \<and> fst (handleDeleteAssignment True ''A9''
          (fst (fetchData (Some admin_U0) (initial_state, scenario)), scenario))
        = fst (fetchData (Some admin_U0) (initial_state, scenario))
   \<and> toasts (snd (handleDeleteAssignment True ''A9''
          (fst (fetchData (Some admin_U0) (initial_state, scenario)), scenario)))
        = [ToastSuccess ''Assignment deleted successfully'']"
proof -
  let ?l = "fetchData (Some admin_U0) (initial_state, scenario)"
  have "map a_id (assignments (fst ?l)) = [''A3'', ''A2'', ''A1'']"
    by (simp add: scenario_defs pipeline_defs with_count_def)
  then have "set (map a_id (assignments (fst ?l))) = {''A3'', ''A2'', ''A1''}" by simp
  then have h1: "''A9'' \<notin> a_id ` set (assignments (fst ?l))" by simp
  have h2: "fst (round_trip scenario)" by (simp add: round_trip_def scenario_def)
  have "toasts scenario = []" by (simp add: scenario_def)
  with delete_unknown_id[OF h1 h2] h1 h2 show ?thesis by simp
qed


section \<open>Creating an assignment\<close>

text \<open>
  Claim C4. The validation failure is reported exactly when the title or the course is
  empty, and then nothing else happens: no round trip, no change of the store or of the
  component. When both are filled in, the user has an id and the round trip succeeds,
  the store gains, at the end, the form's fields stamped with \<open>created_at = now\<close> and
  \<open>created_by\<close> the user's id; the in-memory sequence is not touched and a reload of the
  page is requested instead.
\<close>

theorem create_assignment:
  "(toasts (snd (handleCreateAssignment u now k (s, w)))
       = toasts w @ [ToastError ''Title and course are required'']
     \<longleftrightarrow> f_title (newAssignment s) = [] \<or> f_course_id (newAssignment s) = [])
   \<and> (f_title (newAssignment s) = [] \<or> f_course_id (newAssignment s) = [] \<longrightarrow>
        handleCreateAssignment u now k (s, w)
          = (s, w\<lparr>toasts := toasts w @ [ToastError ''Title and course are required'']\<rparr>))
   \<and> (f_title (newAssignment s) \<noteq> [] \<and> f_course_id (newAssignment s) \<noteq> []
        \<and> u = Some usr \<and> user_id usr = Some uid \<and> fst (round_trip w) \<longrightarrow>
        handleCreateAssignment u now k (s, w)
          = (s\<lparr>isAddDialogOpen := False, newAssignment := empty_form\<rparr>,
             w\<lparr>outages := tl (outages w),
               db_assignments := db_assignments w @
                 [(k, \<lparr>ad_title = f_title (newAssignment s),
                       ad_description = f_description (newAssignment s),
                       ad_course_id = f_course_id (newAssignment s),
                       ad_due_date = f_due_date (newAssignment s),
                       ad_points = f_points (newAssignment s),
                       ad_created_at = Some now, ad_created_by = uid\<rparr>)],
               toasts := toasts w @ [ToastSuccess ''Assignment created successfully''],
               reloads := Suc (reloads w)\<rparr>))"
proof -
  let ?bad = "f_title (newAssignment s) = [] \<or> f_course_id (newAssignment s) = []"
  have invalid: "handleCreateAssignment u now k (s, w)
          = (s, w\<lparr>toasts := toasts w @ [ToastError ''Title and course are required'']\<rparr>)"
    if ?bad using that by (auto simp: handleCreateAssignment_def)
  have other: "toasts (snd (handleCreateAssignment u now k (s, w)))
       \<noteq> toasts w @ [ToastError ''Title and course are required'']" if "\<not> ?bad"
  proof (cases "fst (round_trip w)")
    case True
    from round_trip_ok[OF this] that show ?thesis
      by (auto simp: handleCreateAssignment_def create_failed_def push_assignment_def
          split: option.splits)
  next
    case False
    from round_trip_rejected[OF this] that show ?thesis
      by (auto simp: handleCreateAssignment_def create_failed_def push_assignment_def
          split: option.splits)
  qed
  have valid: "handleCreateAssignment u now k (s, w)
          = (s\<lparr>isAddDialogOpen := False, newAssignment := empty_form\<rparr>,
             w\<lparr>outages := tl (outages w),
               db_assignments := db_assignments w @
                 [(k, \<lparr>ad_title = f_title (newAssignment s),
                       ad_description = f_description (newAssignment s),
                       ad_course_id = f_course_id (newAssignment s),
                       ad_due_date = f_due_date (newAssignment s),
                       ad_points = f_points (newAssignment s),
                       ad_created_at = Some now, ad_created_by = uid\<rparr>)],
               toasts := toasts w @ [ToastSuccess ''Assignment created successfully''],
               reloads := Suc (reloads w)\<rparr>)"
    if "\<not> ?bad" "u = Some usr" "user_id usr = Some uid" "fst (round_trip w)"
    using that round_trip_ok[OF that(4)]
    by (auto simp: handleCreateAssignment_def push_assignment_def assignmentData_def)
  have iff: "toasts (snd (handleCreateAssignment u now k (s, w)))
       = toasts w @ [ToastError ''Title and course are required''] \<longleftrightarrow> ?bad"
  proof (cases ?bad)
    case True
    with invalid show ?thesis by simp
  next
    case False
    with other show ?thesis by blast
  qed
  from iff invalid valid show ?thesis by blast
qed


theorem create_assignment_witness:
  "f_title (newAssignment filled_form) \<noteq> [] \<and> f_course_id (newAssignment filled_form) \<noteq> []
   \<and> user_id teacher_U1 = Some ''U1'' \<and> fst (round_trip scenario)
   \<and> f_title (newAssignment initial_state) = []
   \<and> handleCreateAssignment (Some teacher_U1) 5000 ''A4'' (initial_state, scenario)
        = (initial_state, scenario\<lparr>toasts := [ToastError ''Title and course are required'']\<rparr>)
   \<and> map fst (db_assignments (snd (handleCreateAssignment (Some teacher_U1) 5000 ''A4''
        (filled_form, scenario)))) = [''A1'', ''A2'', ''A3'', ''A4'']
   \<and> reloads (snd (handleCreateAssignment (Some teacher_U1) 5000 ''A4'' (filled_form, scenario))) = 1
   \<and> assignments (fst (handleCreateAssignment (Some teacher_U1) 5000 ''A4'' (filled_form, scenario)))
        = assignments filled_form"
proof -
  have v: "f_title (newAssignment filled_form) \<noteq> []" "f_course_id (newAssignment filled_form) \<noteq> []"
    by (simp_all add: filled_form_def)
  have i: "user_id teacher_U1 = Some ''U1''" by (simp add: teacher_U1_def)
  have r: "fst (round_trip scenario)" by (simp add: round_trip_def scenario_def)
  have e: "f_title (newAssignment initial_state) = []" by (simp add: initial_state_def empty_form_def)
  have t: "toasts scenario = []" "reloads scenario = 0"
    "map fst (db_assignments scenario) = [''A1'', ''A2'', ''A3'']" by (simp_all add: scenario_def)
  from create_assignment[of "Some teacher_U1" 5000 "''A4''" initial_state scenario] e
  have bad: "handleCreateAssignment (Some teacher_U1) 5000 ''A4'' (initial_state, scenario)
        = (initial_state, scenario\<lparr>toasts := toasts scenario @ [ToastError ''Title and course are required'']\<rparr>)"
    by blast
  from create_assignment[of "Some teacher_U1" 5000 "''A4''" filled_form scenario teacher_U1 "''U1''"] v i r
  have good: "handleCreateAssignment (Some teacher_U1) 5000 ''A4'' (filled_form, scenario)
          = (filled_form\<lparr>isAddDialogOpen := False, newAssignment := empty_form\<rparr>,
             scenario\<lparr>outages := tl (outages scenario),
               db_assignments := db_assignments scenario @
                 [(''A4'', \<lparr>ad_title = f_title (newAssignment filled_form),
                       ad_description = f_description (newAssignment filled_form),
                       ad_course_id = f_course_id (newAssignment filled_form),
                       ad_due_date = f_due_date (newAssignment filled_form),
                       ad_points = f_points (newAssignment filled_form),
                       ad_created_at = Some 5000, ad_created_by = ''U1''\<rparr>)],
               toasts := toasts scenario @ [ToastSuccess ''Assignment created successfully''],
               reloads := Suc (reloads scenario)\<rparr>)"
    by blast
  show ?thesis unfolding good bad using v i r e t by simp
qed

text \<open>
  Claim C8 does not hold of the code: the points field declares the bounds 1 and 1000,
  but neither \<open>handlePointsChange\<close> nor \<open>handleCreateAssignment\<close> enforces them.
  Typing 5000 stores 5000 points, and clearing the field stores 0.
\<close>

theorem points_not_enforced:
  "map fst (db_assignments (snd (handleCreateAssignment (Some teacher_U1) 5000 ''A4''
        (handlePointsChange ''5000'' filled_form, scenario))))
     = [''A1'', ''A2'', ''A3'', ''A4'']
   \<and> map ad_points (map snd (db_assignments (snd (handleCreateAssignment (Some teacher_U1) 5000
        ''A4'' (handlePointsChange ''5000'' filled_form, scenario)))))
     = [100, 100, 100, 5000]
   \<and> map ad_points (map snd (db_assignments (snd (handleCreateAssignment (Some teacher_U1) 5000
        ''A4'' (handlePointsChange [] filled_form, scenario)))))
     = [100, 100, 100, 0]"
  by (simp add: handleCreateAssignment_def handlePointsChange_def parseInt_def digit_of_def
      is_space_def filled_form_def scenario_defs push_assignment_def round_trip_def
      assignmentData_def)

section \<open>Failures\<close>

lemma get_snapshot_ok:
  "fst (round_trip w) \<Longrightarrow>
     get_snapshot q w = (Inr (q (w\<lparr>outages := tl (outages w)\<rparr>)), w\<lparr>outages := tl (outages w)\<rparr>)"
  using round_trip_ok[of w] by (simp add: get_snapshot_def)

lemma get_snapshot_fails:
  "\<not> fst (round_trip w) \<Longrightarrow>
     get_snapshot q w = (Inl TransportError, w\<lparr>outages := tl (outages w)\<rparr>)"
  using round_trip_rejected[of w] by (simp add: get_snapshot_def)

lemma round_trip_head:
  "fst (round_trip w) \<longleftrightarrow> True \<notin> set (take 1 (outages w))"
  by (cases "outages w") (auto simp: round_trip_def)

lemma rejected_split:
  "True \<in> set (take (Suc n) os) \<longleftrightarrow> True \<in> set (take 1 os) \<or> True \<in> set (take n (tl os))"
  by (cases os) auto

lemma collect_assignments_rejected:
  "True \<in> set (take (length cs) (outages w)) \<Longrightarrow>
     \<exists>e w'. collect_assignments cs acc w = (Inl e, w')"
proof (induction cs arbitrary: acc w)
  case Nil
  then show ?case by simp
next
  case (Cons c cs)
  show ?case
  proof (cases "fst (round_trip w)")
    case False
    show ?thesis by (simp add: get_snapshot_fails[OF False])
  next
    case True
    with Cons.prems have "True \<in> set (take (length cs) (tl (outages w)))"
      by (simp only: length_Cons rejected_split round_trip_head) simp
    then have "True \<in> set (take (length cs) (outages (w\<lparr>outages := tl (outages w)\<rparr>)))" by simp
    from Cons.IH[OF this] show ?thesis by (simp add: get_snapshot_ok[OF True])
  qed
qed

lemma collect_assignments_passed:
  "True \<notin> set (take (length cs) (outages w)) \<Longrightarrow>
     \<exists>r. collect_assignments cs acc w = (Inr r, w\<lparr>outages := drop (length cs) (outages w)\<rparr>)"
proof (induction cs arbitrary: acc w)
  case Nil
  then show ?case by simp
next
  case (Cons c cs)
  from Cons.prems have hd: "fst (round_trip w)"
    and rest: "True \<notin> set (take (length cs) (tl (outages w)))"
    by (simp_all only: length_Cons rejected_split round_trip_head) simp_all
  from rest have "True \<notin> set (take (length cs) (outages (w\<lparr>outages := tl (outages w)\<rparr>)))" by simp
  from Cons.IH[OF this] show ?case by (simp add: get_snapshot_ok[OF hd] drop_Suc)
qed

lemma count_submissions_rejected:
  "True \<in> set (take (length as) (outages w)) \<Longrightarrow>
     \<exists>e w'. count_submissions as w = (Inl e, w')"
proof (induction as arbitrary: w)
  case Nil
  then show ?case by simp
next
  case (Cons a as)
  show ?case
  proof (cases "fst (round_trip w)")
    case False
    show ?thesis by (simp add: get_snapshot_fails[OF False])
  next
    case True
    with Cons.prems have "True \<in> set (take (length as) (tl (outages w)))"
      by (simp only: length_Cons rejected_split round_trip_head) simp
    then have "True \<in> set (take (length as) (outages (w\<lparr>outages := tl (outages w)\<rparr>)))" by simp
    from Cons.IH[OF this] show ?thesis by (auto simp: get_snapshot_ok[OF True])
  qed
qed

lemma load_failed_any: "load_failed e w = load_failed TransportError w"
  by (simp add: load_failed_def)

lemma length_gathered:
  "length (gathered cs w) = length (concat (map (\<lambda>c. map (enrich c) (assignmentsRef (c_id c) w)) cs))"
  by (simp add: gathered_def)

lemma fetchData_rejected:
  assumes act: "acting u = Some (uid, role)"
    and rej: "rejected_within (round_trips uid role w) w"
  shows "\<exists>os. fetchData u (s, w) =
           ((if fst (round_trip w)
             then s\<lparr>courses := map course_of (coursesRef uid role w), isLoading := False\<rparr>
             else s\<lparr>isLoading := False\<rparr>),
            (load_failed TransportError w)\<lparr>outages := os\<rparr>)"
proof (cases "fst (round_trip w)")
  case False
  from act have "fetchData u (s, w) =
      (s\<lparr>isLoading := False\<rparr>, (load_failed TransportError w)\<lparr>outages := tl (outages w)\<rparr>)"
    by (simp add: fetchData_def load_failed_def get_snapshot_fails[OF False])
  with False show ?thesis by (intro exI[of _ "tl (outages w)"]) simp
next
  case True
  let ?cs = "map course_of (coursesRef uid role w)"
  let ?w1 = "w\<lparr>outages := tl (outages w)\<rparr>"
  let ?s1 = "s\<lparr>courses := ?cs\<rparr>"
  have g: "get_snapshot (coursesRef uid role) w = (Inr (coursesRef uid role w), ?w1)"
    using get_snapshot_ok[OF True, of "coursesRef uid role"] by simp
  from rej True have later: "True \<in> set (take (length ?cs + length (gathered ?cs w)) (tl (outages w)))"
    using rejected_split[of "length ?cs + length (gathered ?cs w)" "outages w"]
    by (simp add: round_trip_head rejected_within_def round_trips_def)
  show ?thesis
  proof (cases "True \<in> set (take (length ?cs) (outages ?w1))")
    case True
    from collect_assignments_rejected[OF this, of "[]"] obtain e w2
      where c: "collect_assignments ?cs [] ?w1 = (Inl e, w2)" by blast
    from collect_assignments_frame[OF c] obtain os2 where "w2 = w\<lparr>outages := os2\<rparr>" by auto
    with act g c have "fetchData u (s, w) =
        (?s1\<lparr>isLoading := False\<rparr>, (load_failed TransportError w)\<lparr>outages := os2\<rparr>)"
      by (simp add: fetchData_def load_failed_def)
    with \<open>fst (round_trip w)\<close> show ?thesis by (intro exI[of _ os2]) simp
  next
    case False
    from collect_assignments_passed[OF this, of "[]"] obtain r
      where c: "collect_assignments ?cs [] ?w1 = (Inr r, ?w1\<lparr>outages := drop (length ?cs) (outages ?w1)\<rparr>)"
      by blast
    from collect_assignments_Inr[OF c]
    have r: "length r = length (gathered ?cs w)" by (simp add: length_gathered)
    from later False have "True \<in> set (take (length r) (drop (length ?cs) (tl (outages w))))"
      by (simp add: take_add r)
    then have "True \<in> set (take (length r)
        (outages (?w1\<lparr>outages := drop (length ?cs) (outages ?w1)\<rparr>)))" by simp
    from count_submissions_rejected[OF this] obtain e w3
      where k: "count_submissions r (?w1\<lparr>outages := drop (length ?cs) (outages ?w1)\<rparr>) = (Inl e, w3)"
      by blast
    from count_submissions_frame[OF k] obtain os3 where "w3 = w\<lparr>outages := os3\<rparr>" by auto
    with act g c k have "fetchData u (s, w) =
        (?s1\<lparr>isLoading := False\<rparr>, (load_failed TransportError w)\<lparr>outages := os3\<rparr>)"
      by (simp add: fetchData_def load_failed_def)
    with \<open>fst (round_trip w)\<close> show ?thesis by (intro exI[of _ os3]) simp
  qed
qed

text \<open>
  Claim C5, as stated, fails: the course list is stored before the assignments are
  fetched, so a run whose second round trip fails has already replaced it. After a
  teacher's successful load, a failing reload as administrator shows the failure toast and
  a course list that went from one course to two.
\<close>

theorem failure_counterexample:
  "toasts (snd (fetchData (Some admin_U0)
       (fst (fetchData (Some teacher_U1) (initial_state, scenario)), second_trip_fails)))
     = [ToastError ''Failed to load assignments.'']
   \<and> map c_id (courses (fst (fetchData (Some teacher_U1) (initial_state, scenario)))) = [''C1'']
   \<and> map c_id (courses (fst (fetchData (Some admin_U0)
       (fst (fetchData (Some teacher_U1) (initial_state, scenario)), second_trip_fails))))
     = [''C1'', ''C2'']"
  by (simp add: scenario_run) (simp add: scenario_defs second_trip_fails_def pipeline_defs)

text \<open>
  Claim C5, amended. Let one of the round trips of a run of the pipeline be rejected. Then
  the run ends normally, shows the error toast, logs the error, ends the loading state and
  leaves the previously loaded assignment sequence, the form, the dialog and the store as
  they were; the assignments gathered so far are discarded. The course list is left as it
  was when the courses read itself is rejected, and is the freshly fetched course scope
  when a later read is rejected. A delete or a create whose round trip is rejected shows
  its error toast and leaves the component state and the store as they were.
\<close>

theorem failure_handling:
  "(u = Some usr \<and> user_id usr = Some uid \<and> uid \<noteq> []
      \<and> rejected_within (round_trips uid (user_role usr) w) w \<longrightarrow>
        toasts (snd (fetchData u (s, w))) = toasts w @ [ToastError ''Failed to load assignments.'']
      \<and> console (snd (fetchData u (s, w))) = console w @ [''Error fetching data:'']
      \<and> assignments (fst (fetchData u (s, w))) = assignments s
      \<and> \<not> isLoading (fst (fetchData u (s, w)))
      \<and> newAssignment (fst (fetchData u (s, w))) = newAssignment s
      \<and> isAddDialogOpen (fst (fetchData u (s, w))) = isAddDialogOpen s
      \<and> db_courses (snd (fetchData u (s, w))) = db_courses w
      \<and> db_assignments (snd (fetchData u (s, w))) = db_assignments w
      \<and> db_submissions (snd (fetchData u (s, w))) = db_submissions w
      \<and> (\<not> fst (round_trip w) \<longrightarrow> courses (fst (fetchData u (s, w))) = courses s)
      \<and> (fst (round_trip w) \<longrightarrow>
            courses (fst (fetchData u (s, w))) = map course_of (coursesRef uid (user_role usr) w)))
   \<and> (\<not> fst (round_trip wd) \<longrightarrow>
         handleDeleteAssignment True aid (sd, wd)
           = (sd, wd\<lparr>outages := tl (outages wd),
                     console := console wd @ [''Error deleting assignment:''],
                     toasts := toasts wd @ [ToastError ''Failed to delete assignment'']\<rparr>))
   \<and> (\<not> fst (round_trip wd) \<and> f_title (newAssignment sd) \<noteq> []
         \<and> f_course_id (newAssignment sd) \<noteq> [] \<and> u = Some usr \<and> user_id usr = Some uid \<longrightarrow>
         handleCreateAssignment u now k (sd, wd)
           = (sd, wd\<lparr>outages := tl (outages wd),
                     console := console wd @ [''Error creating assignment:''],
                     toasts := toasts wd @ [ToastError ''Failed to create assignment'']\<rparr>))"
proof -
  have fetch: "toasts (snd (fetchData u (s, w))) = toasts w @ [ToastError ''Failed to load assignments.'']
      \<and> console (snd (fetchData u (s, w))) = console w @ [''Error fetching data:'']
      \<and> assignments (fst (fetchData u (s, w))) = assignments s
      \<and> \<not> isLoading (fst (fetchData u (s, w)))
      \<and> newAssignment (fst (fetchData u (s, w))) = newAssignment s
      \<and> isAddDialogOpen (fst (fetchData u (s, w))) = isAddDialogOpen s
      \<and> db_courses (snd (fetchData u (s, w))) = db_courses w
      \<and> db_assignments (snd (fetchData u (s, w))) = db_assignments w
      \<and> db_submissions (snd (fetchData u (s, w))) = db_submissions w
      \<and> (\<not> fst (round_trip w) \<longrightarrow> courses (fst (fetchData u (s, w))) = courses s)
      \<and> (fst (round_trip w) \<longrightarrow>
            courses (fst (fetchData u (s, w))) = map course_of (coursesRef uid (user_role usr) w))"
    if usr: "u = Some usr" "user_id usr = Some uid" "uid \<noteq> []"
      and rej: "rejected_within (round_trips uid (user_role usr) w) w"
  proof -
    from usr have act: "acting u = Some (uid, user_role usr)" by (simp add: acting_def)
    from fetchData_rejected[OF act rej, of s] obtain os where
      "fetchData u (s, w) =
           ((if fst (round_trip w)
             then s\<lparr>courses := map course_of (coursesRef uid (user_role usr) w), isLoading := False\<rparr>
             else s\<lparr>isLoading := False\<rparr>),
            (load_failed TransportError w)\<lparr>outages := os\<rparr>)" by blast
    then show ?thesis by (simp add: load_failed_def)
  qed
  have del: "handleDeleteAssignment True aid (sd, wd)
              = (sd, wd\<lparr>outages := tl (outages wd),
                      console := console wd @ [''Error deleting assignment:''],
                      toasts := toasts wd @ [ToastError ''Failed to delete assignment'']\<rparr>)"
    if "\<not> fst (round_trip wd)"
    using round_trip_rejected[OF that]
    by (simp add: handleDeleteAssignment_def remove_assignment_def delete_failed_def)
  have cre: "handleCreateAssignment u now k (sd, wd)
              = (sd, wd\<lparr>outages := tl (outages wd),
                      console := console wd @ [''Error creating assignment:''],
                      toasts := toasts wd @ [ToastError ''Failed to create assignment'']\<rparr>)"
    if "\<not> fst (round_trip wd)" "f_title (newAssignment sd) \<noteq> []"
      "f_course_id (newAssignment sd) \<noteq> []" "u = Some usr" "user_id usr = Some uid"
    using round_trip_rejected[OF that(1)] that(2-5)
    by (simp add: handleCreateAssignment_def push_assignment_def create_failed_def)
  from fetch del cre show ?thesis by blast
qed

theorem failure_handling_witness:
  "user_id admin_U0 = Some ''U0'' \<and> ''U0'' \<noteq> []
   \<and> rejected_within (round_trips ''U0'' (user_role admin_U0) submissions_read_fails)
        submissions_read_fails
   \<and> fst (round_trip submissions_read_fails) \<and> \<not> fst (round_trip first_trip_fails)
   \<and> f_title (newAssignment filled_form) \<noteq> [] \<and> f_course_id (newAssignment filled_form) \<noteq> []
   \<and> map a_id (assignments (fst (fetchData (Some teacher_U1) (initial_state, scenario))))
        = [''A3'', ''A1'']
   \<and> length (gathered (map course_of (coursesRef ''U0'' (user_role admin_U0) submissions_read_fails))
        submissions_read_fails) = 3
   \<and> toasts (snd (fetchData (Some admin_U0)
        (fst (fetchData (Some teacher_U1) (initial_state, scenario)), submissions_read_fails)))
        = [ToastError ''Failed to load assignments.'']
   \<and> map a_id (assignments (fst (fetchData (Some admin_U0)
        (fst (fetchData (Some teacher_U1) (initial_state, scenario)), submissions_read_fails))))
        = [''A3'', ''A1'']
   \<and> map c_id (courses (fst (fetchData (Some admin_U0)
        (fst (fetchData (Some teacher_U1) (initial_state, scenario)), submissions_read_fails))))
        = [''C1'', ''C2'']
   \<and> fst (handleDeleteAssignment True ''A1'' (filled_form, first_trip_fails)) = filled_form
   \<and> toasts (snd (handleDeleteAssignment True ''A1'' (filled_form, first_trip_fails)))
        = [ToastError ''Failed to delete assignment'']
   \<and> fst (handleCreateAssignment (Some admin_U0) 5000 ''A4'' (filled_form, first_trip_fails))
        = filled_form
   \<and> db_assignments (snd (handleCreateAssignment (Some admin_U0) 5000 ''A4''
        (filled_form, first_trip_fails))) = db_assignments scenario"
proof -
  let ?l = "fst (fetchData (Some teacher_U1) (initial_state, scenario))"
  let ?r = "fetchData (Some admin_U0) (?l, submissions_read_fails)"
  have i: "user_id admin_U0 = Some ''U0''" "''U0'' \<noteq> []" by (simp_all add: admin_U0_def)
  have g: "length (gathered (map course_of (coursesRef ''U0'' (user_role admin_U0)
              submissions_read_fails)) submissions_read_fails) = 3"
    by (simp add: gathered_def coursesRef_def assignmentsRef_def admin_U0_def
        submissions_read_fails_def scenario_def doc_for_def course_of_def)
  have rej: "rejected_within (round_trips ''U0'' (user_role admin_U0) submissions_read_fails)
        submissions_read_fails"
    unfolding rejected_within_def round_trips_def g
    by (simp add: coursesRef_def admin_U0_def submissions_read_fails_def scenario_def)
  have t: "toasts submissions_read_fails = []" "toasts first_trip_fails = []"
    "db_assignments first_trip_fails = db_assignments scenario"
    by (simp_all add: submissions_read_fails_def first_trip_fails_def scenario_def)
  have r5: "fst (round_trip submissions_read_fails)" and r1: "\<not> fst (round_trip first_trip_fails)"
    by (simp_all add: round_trip_def submissions_read_fails_def first_trip_fails_def)
  have v: "f_title (newAssignment filled_form) \<noteq> []" "f_course_id (newAssignment filled_form) \<noteq> []"
    by (simp_all add: filled_form_def)
  have l: "map a_id (assignments ?l) = [''A3'', ''A1'']"
    by (simp add: scenario_run with_count_def enrich_def)
  note inst = failure_handling[of "Some admin_U0" admin_U0 "''U0''" submissions_read_fails ?l
      first_trip_fails "''A1''" filled_form 5000 "''A4''"]
  from inst i rej r5 have n: "toasts (snd ?r) = toasts submissions_read_fails
          @ [ToastError ''Failed to load assignments.'']"
    and a: "assignments (fst ?r) = assignments ?l"
    and c: "courses (fst ?r) = map course_of (coursesRef ''U0'' (user_role admin_U0) submissions_read_fails)"
    by blast+
  from inst r1 have d: "handleDeleteAssignment True ''A1'' (filled_form, first_trip_fails)
           = (filled_form, first_trip_fails\<lparr>outages := tl (outages first_trip_fails),
                     console := console first_trip_fails @ [''Error deleting assignment:''],
                     toasts := toasts first_trip_fails @ [ToastError ''Failed to delete assignment'']\<rparr>)"
    by blast
  from inst r1 v i have e: "handleCreateAssignment (Some admin_U0) 5000 ''A4'' (filled_form, first_trip_fails)
           = (filled_form, first_trip_fails\<lparr>outages := tl (outages first_trip_fails),
                     console := console first_trip_fails @ [''Error creating assignment:''],
                     toasts := toasts first_trip_fails @ [ToastError ''Failed to create assignment'']\<rparr>)"
    by blast
  have n': "toasts (snd ?r) = [ToastError ''Failed to load assignments.'']" using n t by simp
  have a': "map a_id (assignments (fst ?r)) = [''A3'', ''A1'']" unfolding a by (rule l)
  have c': "map c_id (courses (fst ?r)) = [''C1'', ''C2'']"
    unfolding c by (simp add: coursesRef_def admin_U0_def submissions_read_fails_def scenario_def course_of_def)
  show ?thesis unfolding d e using i rej r5 r1 v l g n' a' c' t by simp
qed

end
